theory Spec2Isabelle
  imports Main "HOL-Library.Code_Target_Nat"
begin

section \<open>Values carried by the relay\<close>

text \<open>
  The relay server of \<^verbatim>\<open>src/webapp/index.js\<close> (its first revision in that file; the
  later ones differ in initial values and in code outside the relay) is a Socket.IO
  program: every payload is a JavaScript value decoded from JSON. A JavaScript string
  is the list of its UTF-16 code units. A number \<open>JNum n\<close> is the JSON integer \<open>n\<close>,
  that is, the double nearest to \<open>n\<close>; numbers with a fractional part are not modelled,
  and negative zero is not told from zero. An object is the list of its own properties
  in insertion order. Binary attachments and acknowledgement callbacks, which Socket.IO
  can also hand to a handler, are not modelled.
\<close>

type_synonym sid = string

type_synonym ustring = "int list"

definition ascii :: "string \<Rightarrow> ustring" where
  "ascii s = map of_char s"

datatype jsval =
    JUndefined
  | JNull
  | JBool bool
  | JNum int
  | JPosInf
  | JNegInf
  | JNaN
  | JStr ustring
  | JArr "jsval list"
  | JObj "(ustring \<times> jsval) list"

datatype error = TypeError

subsection \<open>Numbers\<close>

text \<open>
  \<open>round53\<close> is the rounding of a natural number to the nearest one that a double
  holds: 53 significant bits, ties to the even significand. A result of more than 1024
  bits is beyond the largest double and stands for infinity. Magnitudes are kept as
  integers, which are never negative here.
\<close>

function bitlen :: "int \<Rightarrow> nat" where
  "bitlen n = (if n \<le> 0 then 0 else Suc (bitlen (n div 2)))"
  by pat_completeness auto
termination
  by (relation "measure nat") auto

definition round53 :: "int \<Rightarrow> int" where
  "round53 n =
     (let b = bitlen n in
      if b \<le> 53 then n
      else
        (let e = b - 53; q = n div 2 ^ e; r = n mod 2 ^ e; h = 2 ^ (e - 1)
         in (if h < r \<or> (r = h \<and> odd q) then q + 1 else q) * 2 ^ e))"

definition to_number :: "bool \<Rightarrow> int \<Rightarrow> jsval" where
  "to_number neg n =
     (let a = round53 n in
      if 1024 < bitlen a then (if neg then JNegInf else JPosInf)
      else JNum (if neg then - a else a))"

text \<open>
  \<^verbatim>\<open>Number::toString\<close> on an integral double \<open>v\<close>: the decimal with the fewest
  significant digits that reads back as \<open>v\<close>, the closest to \<open>v\<close> among those (the even
  one on a tie), written in full below \<open>10 ^ 21\<close> and with an exponent from there on.
\<close>

function dec_digits :: "int \<Rightarrow> ustring" where
  "dec_digits n = (if n < 10 then [48 + n] else dec_digits (n div 10) @ [48 + n mod 10])"
  by pat_completeness auto
termination
  by (relation "measure nat") auto

definition candidate :: "int \<Rightarrow> nat \<Rightarrow> int option" where
  "candidate v p =
     (let f = (v div 10 ^ p) * 10 ^ p; c = f + 10 ^ p;
          okf = (round53 f = v); okc = (round53 c = v)
      in if okf \<and> okc then
           (if v - f < c - v then Some f
            else if c - v < v - f then Some c
            else if even (v div 10 ^ p) then Some f else Some c)
         else if okf then Some f
         else if okc then Some c
         else None)"

fun shortest_from :: "int \<Rightarrow> nat \<Rightarrow> int" where
  "shortest_from v 0 = v"
| "shortest_from v (Suc p) = (case candidate v (Suc p) of Some c \<Rightarrow> c | None \<Rightarrow> shortest_from v p)"

definition shortest :: "int \<Rightarrow> int" where
  "shortest v = shortest_from v (length (dec_digits v))"

definition render :: "int \<Rightarrow> ustring" where
  "render c =
     (let ds = dec_digits c in
      if c < 10 ^ 21 then ds
      else
        (let sig = rev (dropWhile (\<lambda>d. d = 48) (rev ds));
             ex = ascii ''e+'' @ dec_digits (int (length ds) - 1)
         in case sig of
              [] \<Rightarrow> ds
            | [d] \<Rightarrow> d # ex
            | d # d' # rest \<Rightarrow> d # 46 # d' # rest @ ex))"

definition num_to_string :: "int \<Rightarrow> ustring" where
  "num_to_string n =
     (let v = round53 \<bar>n\<bar>;
          sign = (if n < 0 \<and> v \<noteq> 0 then [45] else [])
      in if 1024 < bitlen v then sign @ ascii ''Infinity'' else sign @ render (shortest v))"

subsection \<open>\<^verbatim>\<open>ToString\<close>\<close>

text \<open>
  \<^verbatim>\<open>ToString\<close> of an object calls its \<^verbatim>\<open>toString\<close> method. A value decoded from
  JSON holds no function, so an object with an own property named \<^verbatim>\<open>toString\<close> has
  no callable method and no primitive value: the conversion throws \<^verbatim>\<open>TypeError\<close>.
  An array joins the strings of its elements, and throws when one of them does.
\<close>

fun join_comma :: "ustring list \<Rightarrow> ustring" where
  "join_comma [] = []"
| "join_comma [s] = s"
| "join_comma (s # t # ss) = s @ 44 # join_comma (t # ss)"

fun collect :: "(error + 'a) list \<Rightarrow> error + 'a list" where
  "collect [] = Inr []"
| "collect (Inl e # rs) = Inl e"
| "collect (Inr a # rs) = (case collect rs of Inl e \<Rightarrow> Inl e | Inr as \<Rightarrow> Inr (a # as))"

fun ToString :: "jsval \<Rightarrow> error + ustring" where
  "ToString JUndefined = Inr (ascii ''undefined'')"
| "ToString JNull = Inr (ascii ''null'')"
| "ToString (JBool b) = Inr (if b then ascii ''true'' else ascii ''false'')"
| "ToString (JNum n) = Inr (num_to_string n)"
| "ToString JPosInf = Inr (ascii ''Infinity'')"
| "ToString JNegInf = Inr (ascii ''-Infinity'')"
| "ToString JNaN = Inr (ascii ''NaN'')"
| "ToString (JStr s) = Inr s"
| "ToString (JArr xs) =
     (case collect (map (\<lambda>x. if x = JUndefined \<or> x = JNull then Inr [] else ToString x) xs) of
        Inl e \<Rightarrow> Inl e
      | Inr ss \<Rightarrow> Inr (join_comma ss))"
| "ToString (JObj ps) =
     (if ascii ''toString'' \<in> fst ` set ps then Inl TypeError
      else Inr (ascii ''[object Object]''))"

subsection \<open>\<^verbatim>\<open>parseInt(v, 10)\<close>\<close>

text \<open>
  \<^verbatim>\<open>parseInt\<close> first applies \<^verbatim>\<open>ToString\<close> to its argument, strips leading
  white space and line terminators, reads one optional sign and then the longest prefix
  of decimal digits. With no digit the result is \<open>NaN\<close>; otherwise it is the double
  nearest to the number read.
\<close>

definition is_ws :: "int \<Rightarrow> bool" where
  "is_ws c \<longleftrightarrow>
     c \<in> set [0x9, 0xA, 0xB, 0xC, 0xD, 0x20, 0xA0, 0x1680, 0x2000, 0x2001, 0x2002, 0x2003,
              0x2004, 0x2005, 0x2006, 0x2007, 0x2008, 0x2009, 0x200A, 0x2028, 0x2029,
              0x202F, 0x205F, 0x3000, 0xFEFF]"

definition is_digit :: "int \<Rightarrow> bool" where
  "is_digit c \<longleftrightarrow> 48 \<le> c \<and> c \<le> 57"

definition digits_val :: "ustring \<Rightarrow> int" where
  "digits_val z = foldl (\<lambda>a c. 10 * a + (c - 48)) 0 z"

definition strip_sign :: "ustring \<Rightarrow> ustring" where
  "strip_sign s = (case s of [] \<Rightarrow> [] | c # cs \<Rightarrow> if c = 43 \<or> c = 45 then cs else s)"

definition is_negative :: "ustring \<Rightarrow> bool" where
  "is_negative s = (case s of [] \<Rightarrow> False | c # cs \<Rightarrow> c = 45)"

definition parseInt_string :: "ustring \<Rightarrow> jsval" where
  "parseInt_string inputString =
     (let s = dropWhile is_ws inputString;
          z = takeWhile is_digit (strip_sign s)
      in if z = [] then JNaN else to_number (is_negative s) (digits_val z))"

definition parseInt :: "jsval \<Rightarrow> error + jsval" where
  "parseInt v = (case ToString v of Inl e \<Rightarrow> Inl e | Inr str \<Rightarrow> Inr (parseInt_string str))"

section \<open>State of the relay\<close>

text \<open>
  The module-level variables of \<^verbatim>\<open>index.js\<close>, together with what the Socket.IO
  server and the Node event loop hold for it: the connected sockets, the pending
  \<^verbatim>\<open>setTimeout\<close> callbacks, the clock (milliseconds), and the record of everything
  emitted so far: when, to which sockets, under which event name, and the value handed
  to \<^verbatim>\<open>emit\<close>. A queue entry is the object \<^verbatim>\<open>{ event, data }\<close>.
\<close>

record msg =
  event :: string
  data :: jsval

record emission =
  etime :: nat
  eto :: "sid set"
  ename :: string
  edata :: jsval

record timer =
  due :: nat
  tmsg :: msg
  tindex :: nat

record state =
  lastClipboardContent :: jsval
  lastEmoji :: jsval
  lastWord :: jsval
  lastQuality :: jsval
  lastFrameRate :: jsval
  lastHtmlSource :: jsval
  macUserSocketId :: "sid option"
  messageQueue :: "msg list"
  sockets :: "sid set"
  timers :: "timer list"
  now :: nat
  outbox :: "emission list"

text \<open>The initial values of the source; the status glyph is the code unit U+231B.\<close>

definition init :: state where
  \<open>init =
     \<lparr> lastClipboardContent = JStr (ascii ''Welcome to the shared clipboard!''),
       lastEmoji = JStr [0x231B],
       lastWord = JStr (ascii ''Ready''),
       lastQuality = JNum 1,
       lastFrameRate = JNum 16,
       lastHtmlSource = JStr (ascii ''<div style="display:flex;align-items:center;justify-content:center;height:100%;font-family:sans-serif;color:#555;">Waiting for HTML content...</div>''),
       macUserSocketId = None,
       messageQueue = [],
       sockets = {},
       timers = [],
       now = 0,
       outbox = [] \<rparr>\<close>

subsection \<open>Emitting\<close>

text \<open>
  The four ways the source addresses an emission: \<^verbatim>\<open>io.emit\<close> (every connected
  socket), \<^verbatim>\<open>socket.emit\<close> (that socket), \<^verbatim>\<open>socket.broadcast.emit\<close> (every
  connected socket but that one) and \<^verbatim>\<open>io.to(id).emit\<close> (the room named \<open>id\<close>,
  which holds the socket with that id while it is connected; \<^verbatim>\<open>io.to(null)\<close> names
  a room nobody is in).
\<close>

datatype target = Everyone | Only sid | AllBut sid | Room "sid option"

fun recipients :: "target \<Rightarrow> sid set \<Rightarrow> sid set" where
  "recipients Everyone S = S"
| "recipients (Only x) S = (if x \<in> S then {x} else {})"
| "recipients (AllBut x) S = S - {x}"
| "recipients (Room None) S = {}"
| "recipients (Room (Some r)) S = (if r \<in> S then {r} else {})"

definition emit :: "target \<Rightarrow> string \<Rightarrow> jsval \<Rightarrow> state \<Rightarrow> state" where
  "emit tg ev d s =
     s\<lparr>outbox := outbox s @
        [\<lparr>etime = now s, eto = recipients tg (sockets s), ename = ev, edata = d\<rparr>]\<rparr>"

definition mac_status :: "string \<Rightarrow> jsval" where
  "mac_status st = JObj [(ascii ''type'', JStr (ascii ''mac'')), (ascii ''status'', JStr (ascii st))]"

definition queue_queued :: "int \<Rightarrow> jsval" where
  "queue_queued n =
     JObj [(ascii ''type'', JStr (ascii ''queue'')), (ascii ''status'', JStr (ascii ''queued'')),
           (ascii ''count'', JNum n)]"

definition queue_cleared :: jsval where
  "queue_cleared =
     JObj [(ascii ''type'', JStr (ascii ''queue'')), (ascii ''status'', JStr (ascii ''cleared''))]"

text \<open>JavaScript truthiness of \<^verbatim>\<open>macUserSocketId\<close>, which is \<^verbatim>\<open>null\<close> or a string.\<close>

fun truthy_id :: "sid option \<Rightarrow> bool" where
  "truthy_id None = False"
| "truthy_id (Some x) = (x \<noteq> [])"

subsection \<open>\<^verbatim>\<open>sendToMac\<close>\<close>

definition sendToMac :: "string \<Rightarrow> jsval \<Rightarrow> state \<Rightarrow> state" where
  "sendToMac ev d s =
     (if ev \<noteq> ''wordToMac'' \<or> (truthy_id (macUserSocketId s) \<and> length (messageQueue s) = 0)
      then emit (Room (macUserSocketId s)) ev d s
      else
        (let s1 = s\<lparr>messageQueue := messageQueue s @ [\<lparr>event = ev, data = d\<rparr>]\<rparr>
         in emit Everyone ''statusUpdate'' (queue_queued (int (length (messageQueue s1)))) s1))"

subsection \<open>Timers\<close>

text \<open>
  \<^verbatim>\<open>setTimeout(f, delay)\<close> files the callback under the time it becomes due (the
  clock plus the delay the call asks for), behind the callbacks that are due no later.
  Times are the nominal ones: Node serves a delay of 0 as 1 ms and may run a callback
  later than it is due, which is not modelled.
  The callback of the drain closes over the queue entry and its index, and reads
  \<^verbatim>\<open>macUserSocketId\<close> and \<^verbatim>\<open>messageQueue\<close> when it runs.
\<close>

fun schedule :: "timer \<Rightarrow> timer list \<Rightarrow> timer list" where
  "schedule t [] = [t]"
| "schedule t (u # us) = (if due u \<le> due t then u # schedule t us else t # u # us)"

definition setTimeout :: "msg \<Rightarrow> nat \<Rightarrow> nat \<Rightarrow> state \<Rightarrow> state" where
  "setTimeout m i delay s =
     s\<lparr>timers := schedule \<lparr>due = now s + delay, tmsg = m, tindex = i\<rparr> (timers s)\<rparr>"

definition timeout_callback :: "msg \<Rightarrow> nat \<Rightarrow> state \<Rightarrow> state" where
  "timeout_callback m i s =
     (let s1 = emit (Room (macUserSocketId s)) (event m) (data m) s;
          s2 = emit Everyone ''statusUpdate''
                 (queue_queued (int (length (messageQueue s1)) - int i - 1)) s1
      in if int i = int (length (messageQueue s2)) - 1
         then emit Everyone ''statusUpdate'' queue_cleared (s2\<lparr>messageQueue := []\<rparr>)
         else s2)"

definition fire_next :: "state \<Rightarrow> state" where
  "fire_next s =
     (case timers s of
        [] \<Rightarrow> s
      | t # ts \<Rightarrow> timeout_callback (tmsg t) (tindex t) (s\<lparr>timers := ts, now := max (now s) (due t)\<rparr>))"

subsection \<open>The handlers\<close>

text \<open>
  A handler that throws ends the process: nothing is caught in \<^verbatim>\<open>index.js\<close>. The
  handlers that convert their payload to a string can throw, so they return a result:
  \<^verbatim>\<open>wordToMac\<close> logs the word through a template literal before it stores it, and the
  two numeric handlers call \<^verbatim>\<open>parseInt\<close>.
\<close>

definition forEach_setTimeout :: "msg list \<Rightarrow> state \<Rightarrow> state" where
  "forEach_setTimeout q s =
     fold (\<lambda>(i, m) st. setTimeout m i (i * 2500) st) (enumerate 0 q) s"

definition identify :: "sid \<Rightarrow> jsval \<Rightarrow> state \<Rightarrow> state" where
  "identify x ty s =
     (if ty = JStr (ascii ''macos'') then
        (let s1 = s\<lparr>macUserSocketId := Some x\<rparr>;
             s2 = emit Everyone ''statusUpdate'' (mac_status ''connected'') s1;
             s3 = emit (Only x) ''wordToMac'' (lastWord s2) s2;
             s4 = emit (Only x) ''qualityChange'' (lastQuality s3) s3;
             s5 = emit (Only x) ''frameRateChange'' (lastFrameRate s4) s4
         in if length (messageQueue s5) > 0 then forEach_setTimeout (messageQueue s5) s5 else s5)
      else
        (let s1 = emit (Only x) ''clipboardData'' (lastClipboardContent s) s;
             s2 = emit (Only x) ''emojiToWeb'' (lastEmoji s1) s1;
             s3 = emit (Only x) ''renderHTML'' (lastHtmlSource s2) s2;
             s4 = emit (Only x) ''statusUpdate''
                    (mac_status (if truthy_id (macUserSocketId s3) then ''connected''
                                 else ''disconnected'')) s3
         in if length (messageQueue s4) > 0
            then (let s5 = s4\<lparr>messageQueue := []\<rparr>
                  in emit (Only x) ''statusUpdate''
                       (queue_queued (int (length (messageQueue s5)))) s5)
            else s4))"

definition screenData :: "sid \<Rightarrow> jsval \<Rightarrow> state \<Rightarrow> state" where
  "screenData x d s = emit Everyone ''screenData'' d s"

definition webSourceCode :: "sid \<Rightarrow> jsval \<Rightarrow> state \<Rightarrow> state" where
  "webSourceCode x source s = emit Everyone ''renderHTML'' source (s\<lparr>lastHtmlSource := source\<rparr>)"

definition clipboardData :: "sid \<Rightarrow> jsval \<Rightarrow> state \<Rightarrow> state" where
  "clipboardData x content s =
     emit (AllBut x) ''clipboardData'' content (s\<lparr>lastClipboardContent := content\<rparr>)"

definition wordToMac :: "sid \<Rightarrow> jsval \<Rightarrow> state \<Rightarrow> error + state" where
  "wordToMac x word s =
     (case ToString word of
        Inl e \<Rightarrow> Inl e
      | Inr logged \<Rightarrow> Inr (sendToMac ''wordToMac'' word (s\<lparr>lastWord := word\<rparr>)))"

definition qualityChange :: "sid \<Rightarrow> jsval \<Rightarrow> state \<Rightarrow> error + state" where
  "qualityChange x quality s =
     (case parseInt quality of
        Inl e \<Rightarrow> Inl e
      | Inr n \<Rightarrow> (let s1 = s\<lparr>lastQuality := n\<rparr>
                  in Inr (sendToMac ''qualityChange'' (lastQuality s1) s1)))"

definition frameRateChange :: "sid \<Rightarrow> jsval \<Rightarrow> state \<Rightarrow> error + state" where
  "frameRateChange x frameRate s =
     (case parseInt frameRate of
        Inl e \<Rightarrow> Inl e
      | Inr n \<Rightarrow> (let s1 = s\<lparr>lastFrameRate := n\<rparr>
                  in Inr (sendToMac ''frameRateChange'' (lastFrameRate s1) s1)))"

definition emojiToWeb :: "sid \<Rightarrow> jsval \<Rightarrow> state \<Rightarrow> state" where
  "emojiToWeb x emoji s = emit Everyone ''emojiToWeb'' emoji (s\<lparr>lastEmoji := emoji\<rparr>)"

definition disconnect :: "sid \<Rightarrow> state \<Rightarrow> state" where
  "disconnect x s =
     (if Some x = macUserSocketId s
      then emit Everyone ''statusUpdate'' (mac_status ''disconnected'') (s\<lparr>macUserSocketId := None\<rparr>)
      else s)"

text \<open>
  The older stand-alone server (\<^verbatim>\<open>src/unnamed/part_000\<close>) relays a screen frame
  with \<^verbatim>\<open>socket.broadcast.emit\<close>; it has no other state than the one above.
\<close>

definition screenData_legacy :: "sid \<Rightarrow> jsval \<Rightarrow> state \<Rightarrow> state" where
  "screenData_legacy x d s = emit (AllBut x) ''screenData'' d s"

subsection \<open>The event loop\<close>

text \<open>
  One turn of the event loop: a socket connects, a message of a socket is handled, a
  socket disconnects (Socket.IO takes it out of its rooms before the
  \<^verbatim>\<open>disconnect\<close> handler runs), the earliest pending timer fires, or time passes.
  A timer never fires before it is due: firing moves the clock to the due time unless
  the clock is already past it. A run ends at the first handler that throws.
\<close>

datatype inbound =
    Connect sid
  | Identify sid jsval
  | ScreenData sid jsval
  | WebSourceCode sid jsval
  | ClipboardData sid jsval
  | WordToMac sid jsval
  | QualityChange sid jsval
  | FrameRateChange sid jsval
  | EmojiToWeb sid jsval
  | Disconnect sid
  | TimerFire
  | Elapse nat

fun step :: "inbound \<Rightarrow> state \<Rightarrow> error + state" where
  "step (Connect x) s = Inr (s\<lparr>sockets := insert x (sockets s)\<rparr>)"
| "step (Identify x ty) s = Inr (identify x ty s)"
| "step (ScreenData x d) s = Inr (screenData x d s)"
| "step (WebSourceCode x d) s = Inr (webSourceCode x d s)"
| "step (ClipboardData x d) s = Inr (clipboardData x d s)"
| "step (WordToMac x d) s = wordToMac x d s"
| "step (QualityChange x d) s = qualityChange x d s"
| "step (FrameRateChange x d) s = frameRateChange x d s"
| "step (EmojiToWeb x d) s = Inr (emojiToWeb x d s)"
| "step (Disconnect x) s = Inr (disconnect x (s\<lparr>sockets := sockets s - {x}\<rparr>))"
| "step TimerFire s = Inr (fire_next s)"
| "step (Elapse n) s = Inr (s\<lparr>now := now s + n\<rparr>)"

fun run :: "inbound list \<Rightarrow> state \<Rightarrow> error + state" where
  "run [] s = Inr s"
| "run (e # es) s = (case step e s of Inl err \<Rightarrow> Inl err | Inr s' \<Rightarrow> run es s')"


text \<open>What is seen of a run: a value read off its final state, or the error that ended it.\<close>

fun observe :: "('a \<Rightarrow> 'b) \<Rightarrow> error + 'a \<Rightarrow> error + 'b" where
  "observe f (Inl e) = Inl e"
| "observe f (Inr a) = Inr (f a)"

section \<open>Notions used in the statements\<close>

text \<open>
  A string is parseable as an integer when, after leading white space and one optional
  sign, it starts with a decimal digit.
\<close>

definition parseable_int :: "ustring \<Rightarrow> bool" where
  "parseable_int s = (case strip_sign (dropWhile is_ws s) of [] \<Rightarrow> False | c # cs \<Rightarrow> is_digit c)"

text \<open>
  The payloads of the events named \<open>n\<close> that were emitted to socket \<open>x\<close>, in order,
  and the names of all the events emitted to it.
\<close>

definition received :: "sid \<Rightarrow> string \<Rightarrow> emission list \<Rightarrow> jsval list" where
  "received x n es = map edata (filter (\<lambda>e. x \<in> eto e \<and> ename e = n) es)"

definition names_to :: "sid \<Rightarrow> emission list \<Rightarrow> string list" where
  "names_to x es = map ename (filter (\<lambda>e. x \<in> eto e) es)"


text \<open>
  The latest value of a channel after a sequence of events: the payload of the last
  event that sets the channel, or the value it had before when no event sets it.
\<close>

fun clip_of :: "inbound \<Rightarrow> jsval option" where
  "clip_of (ClipboardData x d) = Some d"
| "clip_of e = None"

fun emoji_of :: "inbound \<Rightarrow> jsval option" where
  "emoji_of (EmojiToWeb x d) = Some d"
| "emoji_of e = None"

fun html_of :: "inbound \<Rightarrow> jsval option" where
  "html_of (WebSourceCode x d) = Some d"
| "html_of e = None"

definition last_of :: "(inbound \<Rightarrow> jsval option) \<Rightarrow> inbound list \<Rightarrow> jsval \<Rightarrow> jsval" where
  "last_of pick evs d = (case List.map_filter pick evs of [] \<Rightarrow> d | p # ps \<Rightarrow> last (p # ps))"

text \<open>
  The device binding as the specification words it: the most recent connection to
  identify as device, unless it has disconnected since; nobody otherwise.
  \<open>last_claim\<close> finds the most recent device identification and the events after it.
\<close>

fun device_claim :: "inbound \<Rightarrow> sid option" where
  "device_claim (Identify x ty) = (if ty = JStr (ascii ''macos'') then Some x else None)"
| "device_claim e = None"

fun last_claim :: "inbound list \<Rightarrow> (sid \<times> inbound list) option" where
  "last_claim [] = None"
| "last_claim (e # es) =
     (case last_claim es of
        Some r \<Rightarrow> Some r
      | None \<Rightarrow> (case device_claim e of Some x \<Rightarrow> Some (x, es) | None \<Rightarrow> None))"

definition spec_binding :: "inbound list \<Rightarrow> sid option" where
  "spec_binding evs =
     (case last_claim evs of
        None \<Rightarrow> None
      | Some (x, after) \<Rightarrow> if Disconnect x \<in> set after then None else Some x)"







subsection \<open>Concrete values and runs\<close>

text \<open>An object that JSON can carry and whose conversion to a string throws.\<close>

definition unreadable :: jsval where
  "unreadable = JObj [(ascii ''toString'', JNum 1)]"

definition macos :: jsval where
  "macos = JStr (ascii ''macos'')"

definition web :: jsval where
  "web = JStr (ascii ''web'')"

text \<open>A viewer sends one command while no device is attached; a second viewer joins.\<close>

definition queued_one :: "inbound list" where
  "queued_one =
     [Connect ''v'', Identify ''v'' web, WordToMac ''v'' (JStr (ascii ''1% About''))]"

definition second_viewer :: "inbound list" where
  "second_viewer = queued_one @ [Connect ''w'', Identify ''w'' web]"




text \<open>
  A command arrives while the drain for device \<open>d\<close> is pending; the drain runs; another
  command arrives.
\<close>

definition stuck_words :: "inbound list" where
  "stuck_words =
     [Connect ''v'', WordToMac ''v'' (JStr (ascii ''a'')), Connect ''d'', Identify ''d'' macos,
      WordToMac ''v'' (JStr (ascii ''b'')), TimerFire, WordToMac ''v'' (JStr (ascii ''c''))]"

text \<open>
  Quality, frame rate and command are set; socket \<open>w\<close> connects, the device sends a
  status glyph, and then \<open>w\<close> identifies as a viewer.
\<close>

definition late_viewer :: "inbound list" where
  "late_viewer =
     [Connect ''d'', Identify ''d'' macos, Connect ''v'',
      QualityChange ''v'' (JStr (ascii ''50'')), FrameRateChange ''v'' (JStr (ascii ''30'')),
      WordToMac ''v'' (JStr (ascii ''hi'')), Connect ''w'', EmojiToWeb ''d'' (JStr (ascii ''ok'')),
      Identify ''w'' web]"

text \<open>The device sends one screen frame while a viewer is connected.\<close>

definition framed :: "inbound list" where
  "framed =
     [Connect ''d'', Identify ''d'' macos, Connect ''v'', ScreenData ''d'' (JStr (ascii ''frame''))]"

text \<open>Two connected sockets, no device attached.\<close>

definition two_viewers :: state where
  "two_viewers = init\<lparr>sockets := {''v'', ''w''}\<rparr>"

text \<open>Three connected sockets, none identified; two of them then identify as device.\<close>

definition three_sockets :: state where
  "three_sockets = init\<lparr>sockets := {''a'', ''b'', ''v''}\<rparr>"

definition two_devices :: state where
  "two_devices =
     identify ''b'' (JStr (ascii ''macos'')) (identify ''a'' (JStr (ascii ''macos'')) three_sockets)"

definition handover :: "inbound list" where
  "handover =
     [Connect ''a'', Identify ''a'' macos, Connect ''b'', Identify ''b'' macos, Disconnect ''b'']"



section \<open>What each handler changes\<close>


declare bitlen.simps [simp del]

declare dec_digits.simps [simp del]

lemma ascii_eq [simp]: "ascii s = ascii t \<longleftrightarrow> s = t"
  by (simp add: ascii_def inj_map_eq_map inj_on_def)

lemma parseInt_string_NaN_iff: "parseInt_string str = JNaN \<longleftrightarrow> \<not> parseable_int str"
  by (auto simp: parseInt_string_def parseable_int_def to_number_def Let_def takeWhile_eq_Nil_iff
           split: list.splits)

lemma sockets_init: "sockets init = {}"
  by (simp add: init_def)

lemma emit_fields:
  "lastClipboardContent (emit tg ev d s) = lastClipboardContent s"
  "lastEmoji (emit tg ev d s) = lastEmoji s"
  "lastWord (emit tg ev d s) = lastWord s"
  "lastQuality (emit tg ev d s) = lastQuality s"
  "lastFrameRate (emit tg ev d s) = lastFrameRate s"
  "lastHtmlSource (emit tg ev d s) = lastHtmlSource s"
  "macUserSocketId (emit tg ev d s) = macUserSocketId s"
  "messageQueue (emit tg ev d s) = messageQueue s"
  "sockets (emit tg ev d s) = sockets s"
  "timers (emit tg ev d s) = timers s"
  "now (emit tg ev d s) = now s"
  "outbox (emit tg ev d s) =
     outbox s @ [\<lparr>etime = now s, eto = recipients tg (sockets s), ename = ev, edata = d\<rparr>]"
  by (simp_all add: emit_def)

lemma fold_setTimeout:
  "fold (\<lambda>(i, m) st. setTimeout m i (i * 2500) st) ps s =
   s\<lparr>timers := fold (\<lambda>(i, m) ts. schedule \<lparr>due = now s + i * 2500, tmsg = m, tindex = i\<rparr> ts)
                  ps (timers s)\<rparr>"
  by (induction ps arbitrary: s) (auto simp: setTimeout_def)

lemma forEach_fields:
  "lastClipboardContent (forEach_setTimeout q s) = lastClipboardContent s"
  "lastEmoji (forEach_setTimeout q s) = lastEmoji s"
  "lastWord (forEach_setTimeout q s) = lastWord s"
  "lastQuality (forEach_setTimeout q s) = lastQuality s"
  "lastFrameRate (forEach_setTimeout q s) = lastFrameRate s"
  "lastHtmlSource (forEach_setTimeout q s) = lastHtmlSource s"
  "macUserSocketId (forEach_setTimeout q s) = macUserSocketId s"
  "messageQueue (forEach_setTimeout q s) = messageQueue s"
  "sockets (forEach_setTimeout q s) = sockets s"
  "now (forEach_setTimeout q s) = now s"
  "outbox (forEach_setTimeout q s) = outbox s"
  "timers (forEach_setTimeout q s) =
     fold (\<lambda>(i, m) ts. schedule \<lparr>due = now s + i * 2500, tmsg = m, tindex = i\<rparr> ts)
       (enumerate 0 q) (timers s)"
  by (simp_all add: forEach_setTimeout_def fold_setTimeout)

lemma identify_device:
  "macUserSocketId (identify x (JStr (ascii ''macos'')) s) = Some x"
  "messageQueue (identify x (JStr (ascii ''macos'')) s) = messageQueue s"
  "lastWord (identify x (JStr (ascii ''macos'')) s) = lastWord s"
  "lastClipboardContent (identify x (JStr (ascii ''macos'')) s) = lastClipboardContent s"
  "lastEmoji (identify x (JStr (ascii ''macos'')) s) = lastEmoji s"
  "lastHtmlSource (identify x (JStr (ascii ''macos'')) s) = lastHtmlSource s"
  "sockets (identify x (JStr (ascii ''macos'')) s) = sockets s"
  "now (identify x (JStr (ascii ''macos'')) s) = now s"
  "timers (identify x (JStr (ascii ''macos'')) s) =
     fold (\<lambda>(i, m) ts. schedule \<lparr>due = now s + i * 2500, tmsg = m, tindex = i\<rparr> ts)
       (enumerate 0 (messageQueue s)) (timers s)"
  "outbox (identify x (JStr (ascii ''macos'')) s) =
     outbox s @
     [\<lparr>etime = now s, eto = sockets s, ename = ''statusUpdate'', edata = mac_status ''connected''\<rparr>,
      \<lparr>etime = now s, eto = recipients (Only x) (sockets s), ename = ''wordToMac'',
        edata = lastWord s\<rparr>,
      \<lparr>etime = now s, eto = recipients (Only x) (sockets s), ename = ''qualityChange'',
        edata = lastQuality s\<rparr>,
      \<lparr>etime = now s, eto = recipients (Only x) (sockets s), ename = ''frameRateChange'',
        edata = lastFrameRate s\<rparr>]"
  by (simp_all add: identify_def Let_def emit_fields forEach_fields)

lemma identify_viewer:
  assumes "ty \<noteq> JStr (ascii ''macos'')"
  shows "macUserSocketId (identify x ty s) = macUserSocketId s"
    and "messageQueue (identify x ty s) = []"
    and "lastWord (identify x ty s) = lastWord s"
    and "lastClipboardContent (identify x ty s) = lastClipboardContent s"
    and "lastEmoji (identify x ty s) = lastEmoji s"
    and "lastHtmlSource (identify x ty s) = lastHtmlSource s"
    and "timers (identify x ty s) = timers s"
  using assms by (simp_all add: identify_def Let_def emit_fields)

lemma sendToMac_fields:
  "macUserSocketId (sendToMac ev d s) = macUserSocketId s"
  "lastClipboardContent (sendToMac ev d s) = lastClipboardContent s"
  "lastEmoji (sendToMac ev d s) = lastEmoji s"
  "lastHtmlSource (sendToMac ev d s) = lastHtmlSource s"
  "lastWord (sendToMac ev d s) = lastWord s"
  "timers (sendToMac ev d s) = timers s"
  by (simp_all add: sendToMac_def Let_def emit_fields)

lemma fire_next_fields:
  "macUserSocketId (fire_next s) = macUserSocketId s"
  "lastClipboardContent (fire_next s) = lastClipboardContent s"
  "lastEmoji (fire_next s) = lastEmoji s"
  "lastHtmlSource (fire_next s) = lastHtmlSource s"
  "lastWord (fire_next s) = lastWord s"
  by (simp_all add: fire_next_def timeout_callback_def Let_def emit_fields split: list.splits)

lemmas handler_fields =
  screenData_def webSourceCode_def clipboardData_def wordToMac_def qualityChange_def
  frameRateChange_def emojiToWeb_def disconnect_def Let_def
  emit_fields sendToMac_fields fire_next_fields

lemma step_mac:
  assumes "step e s = Inr s'"
  shows "macUserSocketId s' =
     (case e of
        Identify x ty \<Rightarrow> if ty = JStr (ascii ''macos'') then Some x else macUserSocketId s
      | Disconnect x \<Rightarrow> if macUserSocketId s = Some x then None else macUserSocketId s
      | _ \<Rightarrow> macUserSocketId s)"
proof (cases e)
  case (Identify x ty)
  then show ?thesis
    using assms
    by (cases "ty = JStr (ascii ''macos'')") (auto simp: identify_device identify_viewer)
qed (use assms in \<open>auto simp: handler_fields split: sum.splits\<close>)

lemma step_registry:
  assumes "step e s = Inr s'"
  shows "lastClipboardContent s' = (case clip_of e of Some d \<Rightarrow> d | None \<Rightarrow> lastClipboardContent s)"
    and "lastEmoji s' = (case emoji_of e of Some d \<Rightarrow> d | None \<Rightarrow> lastEmoji s)"
    and "lastHtmlSource s' = (case html_of e of Some d \<Rightarrow> d | None \<Rightarrow> lastHtmlSource s)"
proof -
  have "lastClipboardContent s' = (case clip_of e of Some d \<Rightarrow> d | None \<Rightarrow> lastClipboardContent s) \<and>
        lastEmoji s' = (case emoji_of e of Some d \<Rightarrow> d | None \<Rightarrow> lastEmoji s) \<and>
        lastHtmlSource s' = (case html_of e of Some d \<Rightarrow> d | None \<Rightarrow> lastHtmlSource s)"
  proof (cases e)
    case (Identify x ty)
    then show ?thesis
      using assms
      by (cases "ty = JStr (ascii ''macos'')") (auto simp: identify_device identify_viewer)
  qed (use assms in \<open>auto simp: handler_fields split: sum.splits\<close>)
  then show "lastClipboardContent s' = (case clip_of e of Some d \<Rightarrow> d | None \<Rightarrow> lastClipboardContent s)"
    and "lastEmoji s' = (case emoji_of e of Some d \<Rightarrow> d | None \<Rightarrow> lastEmoji s)"
    and "lastHtmlSource s' = (case html_of e of Some d \<Rightarrow> d | None \<Rightarrow> lastHtmlSource s)"
    by simp_all
qed

lemma last_of_Cons:
  "last_of pick (e # es) d = last_of pick es (case pick e of Some p \<Rightarrow> p | None \<Rightarrow> d)"
  by (cases "pick e"; cases "List.map_filter pick es") (simp_all add: last_of_def List.map_filter_simps)

lemma run_Cons_Inr:
  "run (e # es) s = Inr s' \<longleftrightarrow> (\<exists>s1. step e s = Inr s1 \<and> run es s1 = Inr s')"
  by (simp split: sum.splits)

lemma registry_latest:
  "run evs s = Inr s' \<Longrightarrow>
   lastClipboardContent s' = last_of clip_of evs (lastClipboardContent s) \<and>
   lastEmoji s' = last_of emoji_of evs (lastEmoji s) \<and>
   lastHtmlSource s' = last_of html_of evs (lastHtmlSource s)"
proof (induction evs arbitrary: s)
  case Nil
  then show ?case by (simp add: last_of_def List.map_filter_simps)
next
  case (Cons e es)
  from Cons.prems obtain s1 where 1: "step e s = Inr s1" and 2: "run es s1 = Inr s'"
    unfolding run_Cons_Inr by blast
  show ?case
    using Cons.IH [OF 2] by (simp add: last_of_Cons step_registry [OF 1])
qed

lemma binding_general:
  "run evs s = Inr s' \<Longrightarrow>
   macUserSocketId s' =
     (case last_claim evs of
        Some (x, after) \<Rightarrow> if Disconnect x \<in> set after then None else Some x
      | None \<Rightarrow> (case macUserSocketId s of
                   None \<Rightarrow> None
                 | Some m \<Rightarrow> if Disconnect m \<in> set evs then None else Some m))"
proof (induction evs arbitrary: s)
  case Nil
  then show ?case by (simp split: option.splits)
next
  case (Cons e es)
  from Cons.prems obtain s1 where 1: "step e s = Inr s1" and 2: "run es s1 = Inr s'"
    unfolding run_Cons_Inr by blast
  note ih = Cons.IH [OF 2]
  show ?case
  proof (cases "last_claim es")
    case (Some r)
    then show ?thesis using ih by simp
  next
    case None
    then show ?thesis
      using ih by (cases e) (auto simp: step_mac [OF 1] split: option.splits)
  qed
qed




section \<open>The drain\<close>










lemma enumerate_map: "enumerate n (map f xs) = map (\<lambda>(i, x). (i, f x)) (enumerate n xs)"
  by (induction xs arbitrary: n) simp_all

section \<open>The queue in reachable states\<close>
















subsection \<open>A drain with no earlier one pending\<close>


section \<open>The claims\<close>

text \<open>
  C1. The claim: a viewer's identification while commands are queued reports the queue
  depth to that viewer and leaves the queue as it is. The code empties the queue first
  and then reports the depth of the emptied queue: after one command is queued, the
  identification of a second viewer leaves no command queued and sends that viewer a
  queue status with count 0.
\<close>

theorem viewer_identify_clears_queue:
  "observe messageQueue (run queued_one init) =
     Inr [\<lparr>event = ''wordToMac'', data = JStr (ascii ''1% About'')\<rparr>] \<and>
   observe messageQueue (run second_viewer init) = Inr [] \<and>
   observe last (observe outbox (run second_viewer init)) =
     Inr \<lparr>etime = 0, eto = {''w''}, ename = ''statusUpdate'', edata = queue_queued 0\<rparr>"
  by code_simp




text \<open>
  C3. The claim: a text command is sent to the device at once whenever a device is
  attached. The code queues it whenever the queue is not empty: a command that arrives
  while the drain for the attached device \<open>d\<close> is pending is queued behind the waiting
  one, the drain's last timer then no longer empties the queue, and every later command
  is queued as well. At the end \<open>d\<close> is attached, no timer is pending, three commands
  are queued, and \<open>d\<close> has been sent only the first of them (by the push of the last
  command and by the drain).
\<close>

theorem word_queued_while_bound:
  "observe macUserSocketId (run stuck_words init) = Inr (Some ''d'') \<and>
   observe sockets (run stuck_words init) = Inr {''d'', ''v''} \<and>
   observe timers (run stuck_words init) = Inr [] \<and>
   observe (map data) (observe messageQueue (run stuck_words init)) =
     Inr [JStr (ascii ''a''), JStr (ascii ''b''), JStr (ascii ''c'')] \<and>
   observe (received ''d'' ''wordToMac'') (observe outbox (run stuck_words init)) =
     Inr [JStr (ascii ''a''), JStr (ascii ''a'')]"
  by code_simp

text \<open>
  C4, as stated, fails twice. Quality, frame rate and last command have been set, yet
  the viewer \<open>w\<close> is sent none of them; and \<open>w\<close>, connected but not yet identified, is
  sent a live status glyph before the four emissions of its snapshot.
\<close>

theorem viewer_not_sent_quality:
  "observe lastQuality (run late_viewer init) = Inr (JNum 50) \<and>
   observe lastFrameRate (run late_viewer init) = Inr (JNum 30) \<and>
   observe lastWord (run late_viewer init) = Inr (JStr (ascii ''hi'')) \<and>
   observe (names_to ''w'') (observe outbox (run late_viewer init)) =
     Inr [''emojiToWeb'', ''clipboardData'', ''emojiToWeb'', ''renderHTML'', ''statusUpdate'']"
  by code_simp

text \<open>
  C4, amended. After any sequence of events, the first four emissions made when a socket
  identifies as a viewer go to that socket and carry, in this order, the latest clipboard
  content, the latest status glyph, the latest rendered markup and whether a device is
  attached. The identification sends nobody a text command, a quality or a frame rate:
  these are not part of a viewer's snapshot. The snapshot is sent when the socket
  identifies; a broadcast, such as a new status glyph, goes to every connected socket,
  identified or not.
\<close>

theorem viewer_hydration:
  fixes evs :: "inbound list" and start s :: state
  assumes "run evs start = Inr s" and "ty \<noteq> JStr (ascii ''macos'')"
  shows "take 4 (drop (length (outbox s)) (outbox (identify x ty s))) =
           [\<lparr>etime = now s, eto = recipients (Only x) (sockets s), ename = ''clipboardData'',
              edata = last_of clip_of evs (lastClipboardContent start)\<rparr>,
            \<lparr>etime = now s, eto = recipients (Only x) (sockets s), ename = ''emojiToWeb'',
              edata = last_of emoji_of evs (lastEmoji start)\<rparr>,
            \<lparr>etime = now s, eto = recipients (Only x) (sockets s), ename = ''renderHTML'',
              edata = last_of html_of evs (lastHtmlSource start)\<rparr>,
            \<lparr>etime = now s, eto = recipients (Only x) (sockets s), ename = ''statusUpdate'',
              edata = mac_status (if truthy_id (macUserSocketId s) then ''connected''
                                  else ''disconnected'')\<rparr>] \<and>
         received y ''wordToMac'' (outbox (identify x ty s)) = received y ''wordToMac'' (outbox s) \<and>
         received y ''qualityChange'' (outbox (identify x ty s)) =
           received y ''qualityChange'' (outbox s) \<and>
         received y ''frameRateChange'' (outbox (identify x ty s)) =
           received y ''frameRateChange'' (outbox s) \<and>
         outbox (emojiToWeb y g s) =
           outbox s @ [\<lparr>etime = now s, eto = sockets s, ename = ''emojiToWeb'', edata = g\<rparr>]"
proof -
  have r: "lastClipboardContent s = last_of clip_of evs (lastClipboardContent start)"
          "lastEmoji s = last_of emoji_of evs (lastEmoji start)"
          "lastHtmlSource s = last_of html_of evs (lastHtmlSource start)"
    using registry_latest [OF assms(1)] by simp_all
  have o: "outbox (identify x ty s) =
           outbox s @
           [\<lparr>etime = now s, eto = recipients (Only x) (sockets s), ename = ''clipboardData'',
              edata = lastClipboardContent s\<rparr>,
            \<lparr>etime = now s, eto = recipients (Only x) (sockets s), ename = ''emojiToWeb'',
              edata = lastEmoji s\<rparr>,
            \<lparr>etime = now s, eto = recipients (Only x) (sockets s), ename = ''renderHTML'',
              edata = lastHtmlSource s\<rparr>,
            \<lparr>etime = now s, eto = recipients (Only x) (sockets s), ename = ''statusUpdate'',
              edata = mac_status (if truthy_id (macUserSocketId s) then ''connected''
                                  else ''disconnected'')\<rparr>] @
           (if messageQueue s = [] then []
            else [\<lparr>etime = now s, eto = recipients (Only x) (sockets s), ename = ''statusUpdate'',
                    edata = queue_queued 0\<rparr>])"
    using assms(2) by (simp add: identify_def Let_def emit_fields)
  have "take 4 (drop (length (outbox s)) (outbox (identify x ty s))) =
           [\<lparr>etime = now s, eto = recipients (Only x) (sockets s), ename = ''clipboardData'',
              edata = lastClipboardContent s\<rparr>,
            \<lparr>etime = now s, eto = recipients (Only x) (sockets s), ename = ''emojiToWeb'',
              edata = lastEmoji s\<rparr>,
            \<lparr>etime = now s, eto = recipients (Only x) (sockets s), ename = ''renderHTML'',
              edata = lastHtmlSource s\<rparr>,
            \<lparr>etime = now s, eto = recipients (Only x) (sockets s), ename = ''statusUpdate'',
              edata = mac_status (if truthy_id (macUserSocketId s) then ''connected''
                                  else ''disconnected'')\<rparr>]"
    by (simp add: o)
  moreover have "received y ''wordToMac'' (outbox (identify x ty s)) =
                 received y ''wordToMac'' (outbox s)"
    by (simp add: o received_def)
  moreover have "received y ''qualityChange'' (outbox (identify x ty s)) =
                 received y ''qualityChange'' (outbox s)"
    by (simp add: o received_def)
  moreover have "received y ''frameRateChange'' (outbox (identify x ty s)) =
                 received y ''frameRateChange'' (outbox s)"
    by (simp add: o received_def)
  moreover have "outbox (emojiToWeb y g s) =
           outbox s @ [\<lparr>etime = now s, eto = sockets s, ename = ''emojiToWeb'', edata = g\<rparr>]"
    by (simp add: emojiToWeb_def emit_def)
  ultimately show ?thesis by (simp only: r)
qed

theorem viewer_hydration_witness:
  "observe sockets (run [Connect ''v'', ClipboardData ''v'' (JStr (ascii ''one'')),
       ClipboardData ''v'' (JStr (ascii ''two'')), Connect ''w''] init) = Inr {''v'', ''w''} \<and>
   web \<noteq> JStr (ascii ''macos'') \<and>
   observe (\<lambda>s. take 4 (drop (length (outbox s)) (outbox (identify ''w'' web s))))
     (run [Connect ''v'', ClipboardData ''v'' (JStr (ascii ''one'')),
           ClipboardData ''v'' (JStr (ascii ''two'')), Connect ''w''] init) =
     Inr [\<lparr>etime = 0, eto = {''w''}, ename = ''clipboardData'', edata = JStr (ascii ''two'')\<rparr>,
          \<lparr>etime = 0, eto = {''w''}, ename = ''emojiToWeb'', edata = JStr [0x231B]\<rparr>,
          \<lparr>etime = 0, eto = {''w''}, ename = ''renderHTML'', edata = lastHtmlSource init\<rparr>,
          \<lparr>etime = 0, eto = {''w''}, ename = ''statusUpdate'',
            edata = mac_status ''disconnected''\<rparr>]"
proof -
  let ?evs = "[Connect ''v'', ClipboardData ''v'' (JStr (ascii ''one'')),
               ClipboardData ''v'' (JStr (ascii ''two'')), Connect ''w'']"
  obtain s where r: "run ?evs init = Inr s"
    and k: "sockets s = {''v'', ''w''}" "now s = 0" "macUserSocketId s = None"
  proof -
    have "observe sockets (run ?evs init) = Inr {''v'', ''w''}"
         "observe now (run ?evs init) = Inr 0"
         "observe macUserSocketId (run ?evs init) = Inr None"
      by code_simp+
    then show ?thesis
      using that by (cases "run ?evs init") auto
  qed
  have h: "web \<noteq> JStr (ascii ''macos'')"
    by (simp add: web_def)
  have e: "last_of clip_of ?evs c = JStr (ascii ''two'')" "last_of emoji_of ?evs c = c"
          "last_of html_of ?evs c = c" for c
    by (simp_all add: last_of_def List.map_filter_simps)
  have i: "lastEmoji init = JStr [0x231B]"
    by (simp add: init_def)
  show ?thesis
    unfolding r using h viewer_hydration [OF r h, where x = "''w''"]
    by (simp add: k e i)
qed

text \<open>
  C5, as stated, fails on \<^verbatim>\<open>webapp/index.js\<close>: the frame sent by \<open>d\<close> is emitted
  with \<^verbatim>\<open>io.emit\<close> and comes back to \<open>d\<close>.
\<close>

theorem frame_echoed_to_sender:
  "observe last (observe outbox (run framed init)) =
     Inr \<lparr>etime = 0, eto = {''d'', ''v''}, ename = ''screenData'', edata = JStr (ascii ''frame'')\<rparr>"
  by code_simp

text \<open>
  C5, amended. The relay of \<^verbatim>\<open>webapp/index.js\<close> passes every screen frame unchanged
  to every connected socket, the sender included; the older stand-alone server passes it
  unchanged to every connected socket but the sender.
\<close>

theorem screen_frame_fanout:
  "outbox (screenData x d s) =
     outbox s @ [\<lparr>etime = now s, eto = sockets s, ename = ''screenData'', edata = d\<rparr>] \<and>
   outbox (screenData_legacy x d s) =
     outbox s @ [\<lparr>etime = now s, eto = sockets s - {x}, ename = ''screenData'', edata = d\<rparr>]"
  by (simp add: screenData_def screenData_legacy_def emit_def)

text \<open>
  C6. After any sequence of events from the initial state that no handler ends by
  throwing, the device binding is the most recent socket to identify as device if it has
  not disconnected since, and nobody otherwise. When \<open>a\<close> and then \<open>b\<close> identify as
  device, the binding is \<open>b\<close>, and what is then sent towards the device is one emission
  to \<open>b\<close> alone: a quality or frame-rate change (the payload parsed), a drain delivery,
  a text command when the queue is empty. From then on \<open>a\<close> is not the device: its
  disconnection changes no binding and emits nothing. When the bound socket disconnects,
  the binding is emptied and a disconnected status is emitted to every remaining
  connection.
\<close>

theorem device_binding:
  fixes s t :: state and a b :: sid
  defines "s2 \<equiv> identify b (JStr (ascii ''macos'')) (identify a (JStr (ascii ''macos'')) s)"
  shows "(run evs init = Inr r \<longrightarrow> macUserSocketId r = spec_binding evs) \<and>
         macUserSocketId s2 = Some b \<and>
         (b \<in> sockets s \<longrightarrow>
            observe outbox (qualityChange v q s2) =
              observe (\<lambda>n. outbox s2 @ [\<lparr>etime = now s, eto = {b}, ename = ''qualityChange'',
                                         edata = n\<rparr>]) (parseInt q) \<and>
            observe outbox (frameRateChange v q s2) =
              observe (\<lambda>n. outbox s2 @ [\<lparr>etime = now s, eto = {b}, ename = ''frameRateChange'',
                                         edata = n\<rparr>]) (parseInt q) \<and>
            take (Suc (length (outbox s2))) (outbox (timeout_callback m i s2)) =
              outbox s2 @ [\<lparr>etime = now s, eto = {b}, ename = event m, edata = data m\<rparr>] \<and>
            (b \<noteq> [] \<and> messageQueue s = [] \<longrightarrow>
               observe outbox (wordToMac v w s2) =
                 observe (\<lambda>l. outbox s2 @ [\<lparr>etime = now s, eto = {b}, ename = ''wordToMac'',
                                            edata = w\<rparr>]) (ToString w))) \<and>
         (a \<noteq> b \<longrightarrow> step (Disconnect a) s2 = Inr (s2\<lparr>sockets := sockets s2 - {a}\<rparr>)) \<and>
         (macUserSocketId t = Some x \<longrightarrow>
            step (Disconnect x) t =
              Inr (t\<lparr>macUserSocketId := None, sockets := sockets t - {x},
                     outbox := outbox t @
                       [\<lparr>etime = now t, eto = sockets t - {x}, ename = ''statusUpdate'',
                         edata = mac_status ''disconnected''\<rparr>]\<rparr>))"
proof -
  have 1: "macUserSocketId r = spec_binding evs" if "run evs init = Inr r"
    using binding_general [OF that]
    by (simp add: spec_binding_def init_def split: option.splits)
  have 2: "macUserSocketId s2 = Some b"
    by (simp add: s2_def identify_device)
  have k: "sockets s2 = sockets s" "messageQueue s2 = messageQueue s" "now s2 = now s"
    by (simp_all add: s2_def identify_device)
  have 3: "observe outbox (qualityChange v q s2) =
              observe (\<lambda>n. outbox s2 @ [\<lparr>etime = now s, eto = {b}, ename = ''qualityChange'',
                                         edata = n\<rparr>]) (parseInt q)"
          "observe outbox (frameRateChange v q s2) =
              observe (\<lambda>n. outbox s2 @ [\<lparr>etime = now s, eto = {b}, ename = ''frameRateChange'',
                                         edata = n\<rparr>]) (parseInt q)"
          "take (Suc (length (outbox s2))) (outbox (timeout_callback m i s2)) =
              outbox s2 @ [\<lparr>etime = now s, eto = {b}, ename = event m, edata = data m\<rparr>]"
    if "b \<in> sockets s"
    using that 2 k
    by (simp_all add: qualityChange_def frameRateChange_def sendToMac_def timeout_callback_def
          emit_fields Let_def split: sum.splits)
  have 4: "observe outbox (wordToMac v w s2) =
                 observe (\<lambda>l. outbox s2 @ [\<lparr>etime = now s, eto = {b}, ename = ''wordToMac'',
                                            edata = w\<rparr>]) (ToString w)"
    if "b \<in> sockets s" "b \<noteq> []" "messageQueue s = []"
    using that 2 k
    by (simp add: wordToMac_def sendToMac_def emit_fields Let_def split: sum.splits)
  have 5: "step (Disconnect a) s2 = Inr (s2\<lparr>sockets := sockets s2 - {a}\<rparr>)" if "a \<noteq> b"
    using that 2 by (auto simp: disconnect_def)
  have 6: "step (Disconnect x) t =
              Inr (t\<lparr>macUserSocketId := None, sockets := sockets t - {x},
                     outbox := outbox t @
                       [\<lparr>etime = now t, eto = sockets t - {x}, ename = ''statusUpdate'',
                         edata = mac_status ''disconnected''\<rparr>]\<rparr>)"
    if "macUserSocketId t = Some x"
    using that by (simp add: disconnect_def emit_def)
  show ?thesis using 1 2 3 4 5 6 by blast
qed

theorem device_binding_witness:
  "run [Connect ''a'', Connect ''b'', Connect ''v''] init = Inr three_sockets \<and>
   observe macUserSocketId (run handover init) = Inr None \<and> spec_binding handover = None \<and>
   ''b'' \<in> sockets three_sockets \<and> ''b'' \<noteq> [] \<and> messageQueue three_sockets = [] \<and>
   ''a'' \<noteq> ''b'' \<and> macUserSocketId two_devices = Some ''b'' \<and>
   observe outbox (qualityChange ''v'' (JStr (ascii ''50'')) two_devices) =
     Inr (outbox two_devices @
          [\<lparr>etime = 0, eto = {''b''}, ename = ''qualityChange'', edata = JNum 50\<rparr>]) \<and>
   observe outbox (wordToMac ''v'' (JStr (ascii ''hi'')) two_devices) =
     Inr (outbox two_devices @
          [\<lparr>etime = 0, eto = {''b''}, ename = ''wordToMac'', edata = JStr (ascii ''hi'')\<rparr>]) \<and>
   observe macUserSocketId (step (Disconnect ''a'') two_devices) = Inr (Some ''b'') \<and>
   observe macUserSocketId (step (Disconnect ''b'') two_devices) = Inr None \<and>
   observe last (observe outbox (step (Disconnect ''b'') two_devices)) =
     Inr \<lparr>etime = 0, eto = {''a'', ''v''}, ename = ''statusUpdate'',
           edata = mac_status ''disconnected''\<rparr>"
proof -
  obtain r where r: "run handover init = Inr r"
  proof -
    have "observe macUserSocketId (run handover init) = Inr None"
      by code_simp
    then show ?thesis
      using that by (cases "run handover init") auto
  qed
  have sb: "spec_binding handover = None"
    by code_simp
  have c: "run [Connect ''a'', Connect ''b'', Connect ''v''] init = Inr three_sockets"
    by (simp add: three_sockets_def sockets_init insert_commute)
  have h: "''b'' \<in> sockets three_sockets" "''b'' \<noteq> []" "messageQueue three_sockets = []"
          "''a'' \<noteq> ''b''"
    by (simp_all add: three_sockets_def init_def)
  have m: "macUserSocketId two_devices = Some ''b''"
    by (simp add: two_devices_def identify_device)
  have k: "sockets two_devices = {''a'', ''b'', ''v''}" "now three_sockets = 0"
          "now two_devices = 0"
    by (simp_all add: two_devices_def identify_device three_sockets_def init_def)
  have p: "parseInt (JStr (ascii ''50'')) = Inr (JNum 50)"
          "ToString (JStr (ascii ''hi'')) = Inr (ascii ''hi'')"
    by code_simp+
  have ne: "{''a'', ''b'', ''v''} - {''b''} = {''a'', ''v''}"
    by auto
  show ?thesis
    unfolding r c
    using h m sb
      device_binding [where evs = handover and r = r and b = "''b''" and a = "''a''"
        and s = three_sockets and v = "''v''" and q = "JStr (ascii ''50'')"
        and w = "JStr (ascii ''hi'')" and t = two_devices and x = "''b''"]
    by (simp add: two_devices_def [symmetric] r k p ne disconnect_def)
qed

text \<open>
  C7, as stated, fails: an object with a property named \<^verbatim>\<open>toString\<close> is a payload the
  relay can receive. With no device attached, a text command that carries it queues
  nothing, and a quality or frame-rate change that carries it is not dropped silently:
  each handler throws.
\<close>

theorem unreadable_not_queued:
  "observe macUserSocketId (run [Connect ''v'', Connect ''w''] init) = Inr None \<and>
   run [Connect ''v'', Connect ''w'', WordToMac ''v'' unreadable] init = Inl TypeError \<and>
   run [Connect ''v'', Connect ''w'', QualityChange ''v'' unreadable] init = Inl TypeError \<and>
   run [Connect ''v'', Connect ''w'', FrameRateChange ''v'' unreadable] init = Inl TypeError \<and>
   macUserSocketId two_viewers = None \<and>
   wordToMac ''v'' unreadable two_viewers = Inl TypeError \<and>
   qualityChange ''v'' unreadable two_viewers = Inl TypeError \<and>
   frameRateChange ''v'' unreadable two_viewers = Inl TypeError"
  by code_simp

text \<open>
  C7, amended. With no device attached, a quality or frame-rate change whose payload has
  a string form is dropped silently: its one emission reaches no socket, and the state
  it leaves differs from the one before only in the stored last value and in the record
  of emissions, so nothing is queued or scheduled for it and the queue is as it was.
  (The stored last value is what a device is sent when it identifies.) A text command
  whose payload has a string form, with no device attached, is stored as the last
  command and adds exactly one entry to the queue, whose new depth is announced to every
  connection.
\<close>

theorem drop_vs_queue:
  assumes "macUserSocketId s = None" and "ToString q = Inr qs" and "ToString w = Inr ws"
  shows "qualityChange x q s =
           Inr (s\<lparr>lastQuality := parseInt_string qs,
                  outbox := outbox s @ [\<lparr>etime = now s, eto = {}, ename = ''qualityChange'',
                                          edata = parseInt_string qs\<rparr>]\<rparr>) \<and>
         frameRateChange x q s =
           Inr (s\<lparr>lastFrameRate := parseInt_string qs,
                  outbox := outbox s @ [\<lparr>etime = now s, eto = {}, ename = ''frameRateChange'',
                                          edata = parseInt_string qs\<rparr>]\<rparr>) \<and>
         wordToMac x w s =
           Inr (s\<lparr>lastWord := w,
                  messageQueue := messageQueue s @ [\<lparr>event = ''wordToMac'', data = w\<rparr>],
                  outbox := outbox s @ [\<lparr>etime = now s, eto = sockets s, ename = ''statusUpdate'',
                                          edata = queue_queued (int (length (messageQueue s)) + 1)\<rparr>]\<rparr>)"
  using assms
  by (simp add: qualityChange_def frameRateChange_def wordToMac_def parseInt_def sendToMac_def
        emit_def Let_def add.commute)

theorem drop_vs_queue_witness:
  "run [Connect ''v'', Connect ''w''] init = Inr two_viewers \<and>
   macUserSocketId two_viewers = None \<and>
   ToString (JStr (ascii ''50'')) = Inr (ascii ''50'') \<and>
   ToString (JStr (ascii ''1% About'')) = Inr (ascii ''1% About'') \<and>
   observe messageQueue (qualityChange ''v'' (JStr (ascii ''50'')) two_viewers) = Inr [] \<and>
   observe outbox (qualityChange ''v'' (JStr (ascii ''50'')) two_viewers) =
     Inr [\<lparr>etime = 0, eto = {}, ename = ''qualityChange'', edata = JNum 50\<rparr>] \<and>
   observe messageQueue (wordToMac ''v'' (JStr (ascii ''1% About'')) two_viewers) =
     Inr [\<lparr>event = ''wordToMac'', data = JStr (ascii ''1% About'')\<rparr>] \<and>
   observe outbox (wordToMac ''v'' (JStr (ascii ''1% About'')) two_viewers) =
     Inr [\<lparr>etime = 0, eto = {''v'', ''w''}, ename = ''statusUpdate'', edata = queue_queued 1\<rparr>]"
proof -
  have h: "macUserSocketId two_viewers = None"
          "ToString (JStr (ascii ''50'')) = Inr (ascii ''50'')"
          "ToString (JStr (ascii ''1% About'')) = Inr (ascii ''1% About'')"
    by (simp_all add: two_viewers_def init_def)
  have p: "parseInt_string (ascii ''50'') = JNum 50"
    by code_simp
  have k: "messageQueue two_viewers = []" "outbox two_viewers = []" "now two_viewers = 0"
          "sockets two_viewers = {''v'', ''w''}"
    by (simp_all add: two_viewers_def init_def)
  have c: "run [Connect ''v'', Connect ''w''] init = Inr two_viewers"
    by (simp add: two_viewers_def sockets_init insert_commute)
  show ?thesis
    unfolding c using h drop_vs_queue [OF h, of "''v''"]
    by (simp add: p k)
qed

text \<open>
  C8, as stated, fails: an object with a property named \<^verbatim>\<open>toString\<close> is not
  parseable as an integer, and the numeric handlers do raise an error on it; the run
  ends there and nothing is stored.
\<close>

theorem unreadable_not_stored:
  "ToString unreadable = Inl TypeError \<and>
   run [Connect ''v'', QualityChange ''v'' unreadable] init = Inl TypeError \<and>
   run [Connect ''v'', FrameRateChange ''v'' unreadable] init = Inl TypeError"
  by code_simp

text \<open>
  C8, amended. A quality or frame-rate payload that has a string form which is not
  parseable as an integer is not rejected and raises no error: the handler stores
  \<open>NaN\<close> as the last value and goes on as for any other payload, sending that value
  towards the device.
\<close>

theorem malformed_number_stored:
  assumes "ToString q = Inr str" and "\<not> parseable_int str"
  shows "qualityChange x q s =
           Inr (emit (Room (macUserSocketId s)) ''qualityChange'' JNaN (s\<lparr>lastQuality := JNaN\<rparr>)) \<and>
         observe lastQuality (qualityChange x q s) = Inr JNaN \<and>
         frameRateChange x q s =
           Inr (emit (Room (macUserSocketId s)) ''frameRateChange'' JNaN
                  (s\<lparr>lastFrameRate := JNaN\<rparr>)) \<and>
         observe lastFrameRate (frameRateChange x q s) = Inr JNaN"
  using assms parseInt_string_NaN_iff [of str]
  by (simp add: qualityChange_def frameRateChange_def parseInt_def sendToMac_def emit_def Let_def)

theorem malformed_number_stored_witness:
  "run [Connect ''v'', Connect ''w''] init = Inr two_viewers \<and>
   ToString (JStr (ascii ''high'')) = Inr (ascii ''high'') \<and> \<not> parseable_int (ascii ''high'') \<and>
   observe lastQuality (qualityChange ''v'' (JStr (ascii ''high'')) two_viewers) = Inr JNaN \<and>
   observe lastFrameRate (frameRateChange ''v'' (JStr (ascii ''high'')) two_viewers) = Inr JNaN \<and>
   observe outbox (qualityChange ''v'' (JStr (ascii ''high'')) two_viewers) =
     Inr [\<lparr>etime = 0, eto = {}, ename = ''qualityChange'', edata = JNaN\<rparr>]"
proof -
  have h: "ToString (JStr (ascii ''high'')) = Inr (ascii ''high'')"
          "\<not> parseable_int (ascii ''high'')"
    by code_simp+
  have k: "macUserSocketId two_viewers = None" "outbox two_viewers = []" "now two_viewers = 0"
    by (simp_all add: two_viewers_def init_def)
  have c: "run [Connect ''v'', Connect ''w''] init = Inr two_viewers"
    by (simp add: two_viewers_def sockets_init insert_commute)
  show ?thesis
    unfolding c using h malformed_number_stored [OF h, of "''v''" two_viewers]
    by (simp add: emit_def k)
qed

text \<open>
  C9. A clipboard update from socket \<open>x\<close> becomes the last clipboard content and is
  emitted to every connected socket other than \<open>x\<close>, never to \<open>x\<close>.
\<close>

theorem clipboard_no_echo:
  "lastClipboardContent (clipboardData x c s) = c \<and>
   outbox (clipboardData x c s) =
     outbox s @ [\<lparr>etime = now s, eto = sockets s - {x}, ename = ''clipboardData'', edata = c\<rparr>] \<and>
   x \<notin> sockets s - {x}"
  by (simp add: clipboardData_def emit_def)



end
